theory Spec2Isabelle
  imports Complex_Main "HOL-Library.Char_ord" "HOL-Library.Log_Nat"
begin

section \<open>JavaScript values used by the pay-now component\<close>

text \<open>
  The component \<^verbatim>\<open>PayNowComponent\<close> keeps five fields and reacts to three user events
  (amount keystroke, "get details", "proceed to pay") and to the notifications of the two
  HTTP requests it subscribes to. Strings are modelled as lists of code units
  (\<^typ>\<open>string\<close>, code units below 256); a value that may be \<^verbatim>\<open>undefined\<close> or
  \<^verbatim>\<open>null\<close> is an \<^typ>\<open>'a option\<close>. A JavaScript number is \<^verbatim>\<open>NaN\<close>, an infinity,
  the negative zero, or a finite value, which is kept as the rational it denotes;
  \<open>Finite 0\<close> is the positive zero.
\<close>

datatype jsnumber = NaN | PosInfinity | NegInfinity | NegZero | Finite rat

text \<open>\<^verbatim>\<open>x || d\<close> for an optional string: the empty string is falsy, like a missing one.\<close>

definition or_string :: "string option \<Rightarrow> string \<Rightarrow> string" where
  "or_string v d = (case v of None \<Rightarrow> d | Some s \<Rightarrow> if s = [] then d else s)"

text \<open>\<^verbatim>\<open>n || 0\<close> for a number: \<^verbatim>\<open>NaN\<close> and both zeros are falsy.\<close>

definition or_zero :: "jsnumber \<Rightarrow> jsnumber" where
  "or_zero n = (if n = NaN \<or> n = Finite 0 \<or> n = NegZero then Finite 0 else n)"

definition isDigit :: "char \<Rightarrow> bool" where
  "isDigit c = (CHR ''0'' \<le> c \<and> c \<le> CHR ''9'')"

subsection \<open>Rounding to binary64\<close>

text \<open>
  The Number value of a mathematical value: the nearest binary64 value, ties to the even
  significand. \<open>floorLog2 q\<close> is the binary exponent of a positive rational, that is
  the \<open>e\<close> with \<open>2 ^ e \<le> q < 2 ^ (e + 1)\<close>; a significand has 53 bits, so the
  spacing at exponent \<open>e\<close> is \<open>2 ^ (e - 52)\<close>. Below exponent \<open>-1022\<close> the spacing stays
  that of the subnormal numbers. A magnitude that rounds to \<open>2 ^ 1024\<close> or more is an
  infinity, and one that rounds to zero is a zero with the sign of the literal.
\<close>

definition floorLog2 :: "rat \<Rightarrow> int" where
  "floorLog2 q = (if 1 \<le> q then bitlen \<lfloor>q\<rfloor> - 1 else - bitlen (\<lceil>1 / q\<rceil> - 1))"

definition roundHalfEven :: "rat \<Rightarrow> int" where
  "roundHalfEven q =
     (let f = \<lfloor>q\<rfloor>; d = q - of_int f
      in if d < 1 / 2 then f else if 1 / 2 < d then f + 1 else if even f then f else f + 1)"

definition binary64 :: "bool \<Rightarrow> rat \<Rightarrow> jsnumber" where
  "binary64 neg m =
     (if m = 0 then (if neg then NegZero else Finite 0)
      else
        let e = max (floorLog2 m) (- 1022);
            ulp = 2 powi (e - 52);
            r = of_int (roundHalfEven (m / ulp)) * ulp
        in if 2 ^ 1024 \<le> r then (if neg then NegInfinity else PosInfinity)
           else if r = 0 then (if neg then NegZero else Finite 0)
           else Finite (if neg then - r else r))"

subsection \<open>\<^verbatim>\<open>parseFloat\<close>\<close>

text \<open>
  \<^verbatim>\<open>parseFloat\<close> skips leading white space (among the code units below 256: tab, line
  feed, vertical tab, form feed, carriage return, space and the no-break space), reads an
  optional sign, and then the longest prefix that is \<^verbatim>\<open>Infinity\<close> or a decimal literal
  (digits, an optional fraction, an optional exponent that counts only when it has a
  digit). The value of the literal is rounded to binary64. Without such a prefix the
  result is \<^verbatim>\<open>NaN\<close>.
\<close>

definition isStrWhiteSpaceChar :: "char \<Rightarrow> bool" where
  "isStrWhiteSpaceChar c =
     (c = CHR 0x09 \<or> c = CHR 0x0A \<or> c = CHR 0x0B \<or> c = CHR 0x0C \<or> c = CHR 0x0D \<or> c = CHR 0x20
      \<or> c = CHR 0xA0)"

definition decimalValue :: "string \<Rightarrow> int" where
  "decimalValue ds = foldl (\<lambda>a c. 10 * a + (of_char c - 48)) 0 ds"

definition exponentPart :: "string \<Rightarrow> int" where
  "exponentPart r =
     (case r of
        [] \<Rightarrow> 0
      | c # t \<Rightarrow>
          if c = CHR ''e'' \<or> c = CHR ''E'' then
            (case t of
               [] \<Rightarrow> 0
             | d # u \<Rightarrow>
                 if d = CHR ''-'' then - decimalValue (takeWhile isDigit u)
                 else if d = CHR ''+'' then decimalValue (takeWhile isDigit u)
                 else decimalValue (takeWhile isDigit t))
          else 0)"

definition decimalLiteral :: "bool \<Rightarrow> string \<Rightarrow> jsnumber" where
  "decimalLiteral neg u =
     (let ip = takeWhile isDigit u;
          r = dropWhile isDigit u;
          fp = (case r of c # t \<Rightarrow> if c = CHR ''.'' then takeWhile isDigit t else [] | [] \<Rightarrow> []);
          e = (case r of c # t \<Rightarrow> if c = CHR ''.'' then dropWhile isDigit t else r | [] \<Rightarrow> [])
      in if ip = [] \<and> fp = [] then NaN
         else binary64 neg
                (of_int (decimalValue (ip @ fp)) / 10 ^ length fp * (10 powi exponentPart e)))"

definition parseFloat :: "string \<Rightarrow> jsnumber" where
  "parseFloat s =
     (let t = dropWhile isStrWhiteSpaceChar s;
          neg = (case t of c # _ \<Rightarrow> c = CHR ''-'' | [] \<Rightarrow> False);
          u = (case t of c # r \<Rightarrow> if c = CHR ''-'' \<or> c = CHR ''+'' then r else t | [] \<Rightarrow> [])
      in if take 8 u = ''Infinity'' then (if neg then NegInfinity else PosInfinity)
         else decimalLiteral neg u)"

section \<open>The component state\<close>

record ConsumerDetails =
  name :: string
  dueDate :: string
  amount :: jsnumber

text \<open>
  \<^verbatim>\<open>errorMessage: SafeHtml | string | null\<close>: a plain string, or markup that went through
  \<^verbatim>\<open>sanitizer.bypassSecurityTrustHtml\<close>.
\<close>

datatype message = Text string | SafeHtml string

record PayNowComponent =
  accountNumber :: string
  phoneNumber :: string
  consumerDetails :: "ConsumerDetails option"
  errorMessage :: "message option"
  isLoading :: bool

section \<open>Phone number validation\<close>

text \<open>
  \<^verbatim>\<open>/^\d{10}$/.test(s)\<close>: the pattern has no flags, so \<^verbatim>\<open>\d\<close> is an ASCII digit and
  \<^verbatim>\<open>$\<close> is the end of the input. The matcher reads \<open>n\<close> digits and then requires the
  end.
\<close>

fun digitsThenEnd :: "nat \<Rightarrow> string \<Rightarrow> bool" where
  "digitsThenEnd 0 s = (s = [])"
| "digitsThenEnd (Suc n) [] = False"
| "digitsThenEnd (Suc n) (c # cs) = (isDigit c \<and> digitsThenEnd n cs)"

definition isPhoneNumberValid :: "PayNowComponent \<Rightarrow> bool" where
  "isPhoneNumberValid this = (phoneNumber this = [] \<or> digitsThenEnd 10 (phoneNumber this))"

section \<open>Amount input sanitization\<close>

text \<open>\<^verbatim>\<open>value.split('.')\<close>: the segments between separators, at least one segment.\<close>

fun js_split :: "char \<Rightarrow> string \<Rightarrow> string list" where
  "js_split sep [] = [[]]"
| "js_split sep (c # cs) =
     (if c = sep then [] # js_split sep cs
      else (case js_split sep cs of p # ps \<Rightarrow> (c # p) # ps | [] \<Rightarrow> [[c]]))"

text \<open>The string that \<^verbatim>\<open>restrictToNumber\<close> writes back to \<^verbatim>\<open>input.value\<close>.\<close>

definition restrictedValue :: "string \<Rightarrow> string" where
  "restrictedValue v =
     (let value0 = filter (\<lambda>c. isDigit c \<or> c = CHR ''.'') v;
          parts = js_split (CHR ''.'') value0;
          value1 = (if length parts > 2 then parts ! 0 @ ''.'' @ parts ! 1 else value0)
      in if length parts > 1 \<and> parts ! 1 \<noteq> [] \<and> length (parts ! 1) > 2
         then parts ! 0 @ ''.'' @ take 2 (parts ! 1)
         else value1)"

text \<open>
  The handler: the new \<^verbatim>\<open>input.value\<close> and the component, whose amount is updated when
  consumer details are shown.
\<close>

definition restrictToNumber :: "string \<Rightarrow> PayNowComponent \<Rightarrow> string \<times> PayNowComponent" where
  "restrictToNumber v this =
     (let value = restrictedValue v
      in (value,
          case consumerDetails this of
            None \<Rightarrow> this
          | Some cd \<Rightarrow> this\<lparr>consumerDetails := Some (cd\<lparr>amount := or_zero (parseFloat value)\<rparr>)\<rparr>))"

text \<open>
  The sanitizer in the words of the specification: keep digits and decimal points; the
  result is the first segment, and, when there is a decimal point, a point and the first
  two characters of the segment after the first point.
\<close>

definition sanitized :: "string \<Rightarrow> string" where
  "sanitized v =
     (let kept = filter (\<lambda>c. isDigit c \<or> c = CHR ''.'') v;
          whole = takeWhile (\<lambda>c. c \<noteq> CHR ''.'') kept;
          rest = dropWhile (\<lambda>c. c \<noteq> CHR ''.'') kept
      in if rest = [] then whole
         else whole @ ''.'' @ take 2 (takeWhile (\<lambda>c. c \<noteq> CHR ''.'') (tl rest)))"

section \<open>HTTP requests, responses and their delivery\<close>

text \<open>
  The two requests the component sends. The GET carries the account number as the
  \<^verbatim>\<open>FileNumber\<close> query parameter; the POST carries the payment payload, whose
  \<^verbatim>\<open>number\<close> property is set only on one branch.
\<close>

record PaymentPayload =
  pay_name :: string
  fileNumber :: string
  pay_amount :: jsnumber
  number :: "string option"

datatype request = HttpGet string | HttpPost PaymentPayload

text \<open>
  A response body is a JSON object with an optional \<^verbatim>\<open>message\<close> and optional
  \<^verbatim>\<open>data\<close>; a property that is missing or \<^verbatim>\<open>null\<close> is \<open>None\<close>. The lookup's data
  holds the payload, the payment's data holds the link. The properties that the handlers
  store into string fields of the component are strings here; \<^verbatim>\<open>totalAmount\<close> is a
  string or a number.
\<close>

record 'd response =
  message :: "string option"
  data :: "'d option"

record CustomerDetails =
  customer_name :: "string option"
  customer_phoneNumber :: "string option"

datatype totalAmount = AmountString string | AmountNumber jsnumber

record Payload =
  customerDetails :: "CustomerDetails option"
  payload_dueDate :: "string option"
  totalAmount :: "totalAmount option"

record LookupData =
  payload :: "Payload option"

record PaymentData =
  link :: "string option"

text \<open>The error object handed to an error callback: the fields the handlers read.\<close>

record HttpError =
  error_name :: "string option"
  error_status :: "int option"
  error_message :: "string option"

text \<open>
  Modelled from the spec: the subscription machinery (Angular's \<^verbatim>\<open>HttpClient\<close>, and
  \<^verbatim>\<open>timeout\<close> and \<^verbatim>\<open>subscribe\<close> of rxjs) is not among the sources. Following the
  specification, a request has one outcome, and exactly one of the success path and the
  error path runs for it: a response is handed to the \<^verbatim>\<open>next\<close> callback and followed
  by the completion signal; a failure, which includes the timeout after 5 seconds (an
  error named \<^verbatim>\<open>TimeoutError\<close>), is handed to the \<^verbatim>\<open>error\<close> callback and nothing
  follows.
\<close>

datatype 'r outcome = Responded 'r | Failed HttpError

datatype 'r notification = Next 'r | Error HttpError | Complete

fun notifications :: "'r outcome \<Rightarrow> 'r notification list" where
  "notifications (Responded r) = [Next r, Complete]"
| "notifications (Failed e) = [Error e]"

text \<open>
  Modelled from the spec: whatever a subscription delivers, it has ended once its last
  notification is an error or the completion.
\<close>

fun terminal :: "'r notification \<Rightarrow> bool" where
  "terminal (Next r) = False"
| "terminal (Error e) = True"
| "terminal Complete = True"

definition terminated :: "'r notification list \<Rightarrow> bool" where
  "terminated ns = (ns \<noteq> [] \<and> terminal (last ns))"

section \<open>Lookup: \<^verbatim>\<open>onGetDetails\<close>\<close>

text \<open>The synchronous part: the new state and the request that is sent, if any.\<close>

definition onGetDetails :: "PayNowComponent \<Rightarrow> PayNowComponent \<times> request option" where
  "onGetDetails this =
     (if accountNumber this = [] then
        (this\<lparr>errorMessage := Some (Text ''Please enter an account number''),
              consumerDetails := None\<rparr>, None)
      else if isLoading this then (this, None)
      else
        (this\<lparr>isLoading := True, errorMessage := None, consumerDetails := None,
              phoneNumber := []\<rparr>,
         Some (HttpGet (accountNumber this))))"

text \<open>
  \<^verbatim>\<open>parseFloat(payload.totalAmount)\<close>: a missing amount reads as the text
  \<^verbatim>\<open>undefined\<close>, which is not a number; a number is converted to text and read back,
  which returns the number, except that the negative zero is written \<^verbatim>\<open>0\<close>.
\<close>

definition parseFloat_totalAmount :: "totalAmount option \<Rightarrow> jsnumber" where
  "parseFloat_totalAmount v =
     (case v of
        None \<Rightarrow> NaN
      | Some (AmountString s) \<Rightarrow> parseFloat s
      | Some (AmountNumber n) \<Rightarrow> if n = NegZero then Finite 0 else n)"

definition getDetails_next :: "LookupData response \<Rightarrow> PayNowComponent \<Rightarrow> PayNowComponent" where
  "getDetails_next response this =
     (if message response \<noteq> Some ''SUCCESS'' then
        this\<lparr>errorMessage :=
               Some (Text (or_string (message response) ''An error occurred while fetching details.'')),
             consumerDetails := None\<rparr>
      else
        (case Option.bind (data response) payload of
           Some pl \<Rightarrow>
             this\<lparr>consumerDetails := Some
                    \<lparr>name = or_string (Option.bind (customerDetails pl) customer_name) ''Unknown Name'',
                     dueDate = or_string (payload_dueDate pl) ''Unknown Due Date'',
                     amount = or_zero (parseFloat_totalAmount (totalAmount pl))\<rparr>,
                  phoneNumber := or_string (Option.bind (customerDetails pl) customer_phoneNumber) [],
                  errorMessage := None\<rparr>
         | None \<Rightarrow>
             this\<lparr>errorMessage := Some (Text ''No data found for this account number.''),
                  consumerDetails := None\<rparr>))"

definition getDetails_error :: "HttpError \<Rightarrow> PayNowComponent \<Rightarrow> PayNowComponent" where
  "getDetails_error error this =
     this\<lparr>errorMessage := Some (Text
            (if error_name error = Some ''TimeoutError'' then
               ''Request timed out. Please try again or check your network.''
             else if error_status error = Some 0 then
               ''CORS error: Unable to reach the server. Please check your network or contact support.''
             else if error_status error = Some 401 \<or> error_status error = Some 403 then
               ''Authorization error: Invalid or expired token. Please contact support.''
             else ''Failed to fetch details: '' @ or_string (error_message error) ''Unknown error'')),
          consumerDetails := None,
          isLoading := False\<rparr>"

definition getDetails_complete :: "PayNowComponent \<Rightarrow> PayNowComponent" where
  "getDetails_complete this = this\<lparr>isLoading := False\<rparr>"

fun getDetails_observer :: "PayNowComponent \<Rightarrow> LookupData response notification \<Rightarrow> PayNowComponent" where
  "getDetails_observer this (Next r) = getDetails_next r this"
| "getDetails_observer this (Error e) = getDetails_error e this"
| "getDetails_observer this Complete = getDetails_complete this"

text \<open>One whole lookup: the synchronous part, then the notifications of its request.\<close>

definition getDetails_run :: "LookupData response outcome \<Rightarrow> PayNowComponent \<Rightarrow> PayNowComponent" where
  "getDetails_run out this =
     (case onGetDetails this of
        (this', None) \<Rightarrow> this'
      | (this', Some _) \<Rightarrow> foldl getDetails_observer this' (notifications out))"

section \<open>Payment initiation: \<^verbatim>\<open>onProceedToPay\<close>\<close>

text \<open>The tab opened by \<^verbatim>\<open>window.open('', '_blank')\<close>.\<close>

record TempWindow =
  location_href :: string
  closed :: bool

definition paymentPayload :: "PayNowComponent \<Rightarrow> ConsumerDetails \<Rightarrow> PaymentPayload" where
  "paymentPayload this cd =
     \<lparr>pay_name = name cd,
      fileNumber = accountNumber this,
      pay_amount = amount cd,
      number = (if phoneNumber this \<noteq> [] \<and> isPhoneNumberValid this
                then Some (phoneNumber this) else None)\<rparr>"

text \<open>
  The synchronous part. \<open>popupAllowed\<close> says whether the browser lets \<^verbatim>\<open>window.open\<close>
  return a window. The result is the new state and, when the request is sent, the opened
  tab and the request.
\<close>

definition onProceedToPay ::
  "bool \<Rightarrow> PayNowComponent \<Rightarrow> PayNowComponent \<times> (TempWindow \<times> request) option" where
  "onProceedToPay popupAllowed this =
     (case consumerDetails this of
        None \<Rightarrow>
          (this\<lparr>errorMessage :=
                  Some (Text ''No consumer details available to proceed with payment.'')\<rparr>, None)
      | Some cd \<Rightarrow>
          if isLoading this then (this, None)
          else
            let this1 = this\<lparr>isLoading := True, errorMessage := None\<rparr>;
                body = paymentPayload this1 cd
            in if \<not> popupAllowed then
                 (this1\<lparr>errorMessage := Some (SafeHtml
                     ''Popup blocked. Please allow popups in Safari (Settings > Safari > Block Pop-ups > Off) and try again, or <a href=\"#\" class=\"fallback-link\">click here</a> to proceed with payment.''),
                   isLoading := False\<rparr>, None)
               else
                 (this1, Some (\<lparr>location_href = ''about:blank'', closed = False\<rparr>, HttpPost body)))"

text \<open>
  The handlers work on the component and the tab. \<open>URL\<close> stands for
  \<^verbatim>\<open>new URL(link).toString()\<close>: the serialised URL, or \<open>None\<close> when the constructor
  throws.
\<close>

definition proceedToPay_next ::
  "(string \<Rightarrow> string option) \<Rightarrow> PaymentData response \<Rightarrow> PayNowComponent \<times> TempWindow
     \<Rightarrow> PayNowComponent \<times> TempWindow" where
  "proceedToPay_next URL response st =
     (case st of (this, tempWindow) \<Rightarrow>
        let failed =
              (this\<lparr>errorMessage := Some (Text ''Failed to generate payment link. Please try again.''),
                    isLoading := False\<rparr>,
               tempWindow\<lparr>closed := True\<rparr>)
        in (case Option.bind (data response) link of
              None \<Rightarrow> failed
            | Some l \<Rightarrow>
                (if message response = Some ''Success'' \<and> l \<noteq> [] then
                   (case URL l of
                      Some paymentUrl \<Rightarrow> (this, tempWindow\<lparr>location_href := paymentUrl\<rparr>)
                    | None \<Rightarrow>
                        (this\<lparr>errorMessage := Some (SafeHtml
                            (''Invalid payment URL. Please try again or <a href=\"'' @ l
                             @ ''\" class=\"fallback-link\">click here</a> to proceed with payment.'')),
                          isLoading := False\<rparr>,
                         tempWindow\<lparr>closed := True\<rparr>))
                 else failed)))"

definition proceedToPay_error ::
  "HttpError \<Rightarrow> PayNowComponent \<times> TempWindow \<Rightarrow> PayNowComponent \<times> TempWindow" where
  "proceedToPay_error error st =
     (case st of (this, tempWindow) \<Rightarrow>
        (this\<lparr>errorMessage := Some (SafeHtml
            (if error_name error = Some ''TimeoutError'' then
               ''Payment request timed out. Please try again.''
             else if error_status error = Some 0 then
               ''Unable to reach the payment server. Please check your network, allow popups in Safari (Settings > Safari > Block Pop-ups > Off), or <a href=\"#\" class=\"fallback-link\">click here</a> to proceed.''
             else if error_status error = Some 401 \<or> error_status error = Some 403 then
               ''Authorization error: Unable to process payment. Please contact support.''
             else ''Failed to initiate payment: '' @ or_string (error_message error) ''Unknown error'')),
          isLoading := False\<rparr>,
         tempWindow\<lparr>closed := True\<rparr>))"

definition proceedToPay_complete ::
  "PayNowComponent \<times> TempWindow \<Rightarrow> PayNowComponent \<times> TempWindow" where
  "proceedToPay_complete st = (case st of (this, tempWindow) \<Rightarrow> (this\<lparr>isLoading := False\<rparr>, tempWindow))"

fun proceedToPay_observer ::
  "(string \<Rightarrow> string option) \<Rightarrow> PayNowComponent \<times> TempWindow \<Rightarrow> PaymentData response notification
     \<Rightarrow> PayNowComponent \<times> TempWindow" where
  "proceedToPay_observer URL st (Next r) = proceedToPay_next URL r st"
| "proceedToPay_observer URL st (Error e) = proceedToPay_error e st"
| "proceedToPay_observer URL st Complete = proceedToPay_complete st"

text \<open>One whole payment initiation: the final state and the tab, when one was opened.\<close>

definition proceedToPay_run ::
  "(string \<Rightarrow> string option) \<Rightarrow> bool \<Rightarrow> PaymentData response outcome \<Rightarrow> PayNowComponent
     \<Rightarrow> PayNowComponent \<times> TempWindow option" where
  "proceedToPay_run URL popupAllowed out this =
     (case onProceedToPay popupAllowed this of
        (this', None) \<Rightarrow> (this', None)
      | (this', Some (tempWindow, _)) \<Rightarrow>
          (case foldl (proceedToPay_observer URL) (this', tempWindow) (notifications out) of
             (this'', tempWindow') \<Rightarrow> (this'', Some tempWindow')))"

section \<open>Sessions of the screen\<close>

text \<open>The component starts from its field initialisers.\<close>

definition init :: PayNowComponent where
  "init = \<lparr>accountNumber = [], phoneNumber = [], consumerDetails = None,
            errorMessage = None, isLoading = False\<rparr>"

text \<open>
  Modelled from the spec: the template \<^verbatim>\<open>pay-now.component.html\<close>, which binds the
  fields and calls the handlers, is not among the sources. Following the specification,
  the user types into the account, phone and amount fields (the amount field calls
  \<^verbatim>\<open>restrictToNumber\<close> on every keystroke) and clicks the two buttons. The
  subscriptions deliver their notifications in between, and the handlers work on whatever
  the component holds when they run, so a session is any sequence of these events;
  \<open>URL\<close> is the URL parser, and a payment notification comes with the tab of its request.
\<close>

datatype event =
    AccountNumberInput string
  | PhoneNumberInput string
  | AmountInput string
  | GetDetailsClick
  | ProceedToPayClick bool
  | GetDetailsNotification "LookupData response notification"
  | ProceedToPayNotification "PaymentData response notification" TempWindow

fun step :: "(string \<Rightarrow> string option) \<Rightarrow> PayNowComponent \<Rightarrow> event \<Rightarrow> PayNowComponent" where
  "step URL this (AccountNumberInput v) = this\<lparr>accountNumber := v\<rparr>"
| "step URL this (PhoneNumberInput v) = this\<lparr>phoneNumber := v\<rparr>"
| "step URL this (AmountInput v) = snd (restrictToNumber v this)"
| "step URL this GetDetailsClick = fst (onGetDetails this)"
| "step URL this (ProceedToPayClick popupAllowed) = fst (onProceedToPay popupAllowed this)"
| "step URL this (GetDetailsNotification n) = getDetails_observer this n"
| "step URL this (ProceedToPayNotification n tempWindow) =
     fst (proceedToPay_observer URL (this, tempWindow) n)"

section \<open>Properties of the amount sanitizer\<close>

text \<open>
  \<^const>\<open>js_split\<close> cuts at every separator, so the kept characters have one of three
  shapes: no point, one point, or at least two points. In each shape the handler's result
  and the specification's wording are computed separately and coincide.
\<close>

lemma js_split_no_sep: "sep \<notin> set s \<Longrightarrow> js_split sep s = [s]"
  by (induction s) auto

lemma js_split_at_sep: "sep \<notin> set w \<Longrightarrow> js_split sep (w @ sep # t) = w # js_split sep t"
  by (induction w) auto

lemma js_split_not_Nil: "js_split sep s \<noteq> []"
  by (induction s) (auto split: list.splits)

lemma takeWhile_not_dot: "takeWhile (\<lambda>c. c \<noteq> d) (w @ d # t) = (if d \<in> set w then takeWhile (\<lambda>c. c \<noteq> d) w else w)"
  by (induction w) auto

lemma dropWhile_not_dot: "d \<notin> set w \<Longrightarrow> dropWhile (\<lambda>c. c \<noteq> d) (w @ d # t) = d # t"
  by (induction w) auto

lemma takeWhile_no_dot: "d \<notin> set w \<Longrightarrow> takeWhile (\<lambda>c. c \<noteq> d) w = w"
  by (induction w) auto

lemma restrictedValue_whole:
  assumes "filter (\<lambda>c. isDigit c \<or> c = CHR ''.'') v = w" "CHR ''.'' \<notin> set w"
  shows "restrictedValue v = w" "sanitized v = w"
  using assms by (simp_all add: restrictedValue_def sanitized_def Let_def js_split_no_sep takeWhile_no_dot)

lemma restrictedValue_one_point:
  assumes "filter (\<lambda>c. isDigit c \<or> c = CHR ''.'') v = w @ CHR ''.'' # f"
    "CHR ''.'' \<notin> set w" "CHR ''.'' \<notin> set f"
  shows "restrictedValue v = w @ CHR ''.'' # take 2 f" "sanitized v = w @ CHR ''.'' # take 2 f"
  using assms
  by (simp_all add: restrictedValue_def sanitized_def Let_def js_split_at_sep js_split_no_sep
      takeWhile_not_dot dropWhile_not_dot takeWhile_no_dot)

lemma restrictedValue_more_points:
  assumes "filter (\<lambda>c. isDigit c \<or> c = CHR ''.'') v = w @ CHR ''.'' # f @ CHR ''.'' # q"
    "CHR ''.'' \<notin> set w" "CHR ''.'' \<notin> set f"
  shows "restrictedValue v = w @ CHR ''.'' # take 2 f" "sanitized v = w @ CHR ''.'' # take 2 f"
proof -
  obtain p ps where "js_split (CHR ''.'') q = p # ps"
    using js_split_not_Nil [of "CHR ''.''" q] by (cases "js_split (CHR ''.'') q") auto
  then show "restrictedValue v = w @ CHR ''.'' # take 2 f"
    using assms by (simp add: restrictedValue_def Let_def js_split_at_sep)
  show "sanitized v = w @ CHR ''.'' # take 2 f"
    using assms by (simp add: sanitized_def Let_def takeWhile_not_dot dropWhile_not_dot)
qed

lemma split_at_point:
  obtains "CHR ''.'' \<notin> set k"
  | w f where "k = w @ CHR ''.'' # f" "CHR ''.'' \<notin> set w" "CHR ''.'' \<notin> set f"
  | w f q where "k = w @ CHR ''.'' # f @ CHR ''.'' # q" "CHR ''.'' \<notin> set w" "CHR ''.'' \<notin> set f"
proof (cases "CHR ''.'' \<in> set k")
  case False
  then show ?thesis using that by blast
next
  case True
  then obtain w t where k: "k = w @ CHR ''.'' # t" "CHR ''.'' \<notin> set w"
    by (meson split_list_first)
  show ?thesis
  proof (cases "CHR ''.'' \<in> set t")
    case False
    with k show ?thesis using that by blast
  next
    case True
    then obtain f q where "t = f @ CHR ''.'' # q" "CHR ''.'' \<notin> set f"
      by (meson split_list_first)
    with k show ?thesis using that by blast
  qed
qed

lemma restrictedValue_sanitized: "restrictedValue v = sanitized v"
proof (cases "filter (\<lambda>c. isDigit c \<or> c = CHR ''.'') v" rule: split_at_point)
  case 1
  then show ?thesis using restrictedValue_whole [OF refl] by simp
next
  case (2 w f)
  then show ?thesis using restrictedValue_one_point by simp
next
  case (3 w f q)
  then show ?thesis using restrictedValue_more_points by simp
qed

lemma sanitized_subset:
  "set (sanitized v) \<subseteq> set (filter (\<lambda>c. isDigit c \<or> c = CHR ''.'') v)"
proof (cases "filter (\<lambda>c. isDigit c \<or> c = CHR ''.'') v" rule: split_at_point)
  case 1
  then show ?thesis using restrictedValue_whole(2) [OF refl, of v] by simp
next
  case (2 w f)
  show ?thesis
    unfolding restrictedValue_one_point(2) [OF 2] 2(1) by (auto dest: in_set_takeD)
next
  case (3 w f q)
  show ?thesis
    unfolding restrictedValue_more_points(2) [OF 3] 3(1) by (auto dest: in_set_takeD)
qed

lemma sanitized_chars: "c \<in> set (sanitized v) \<Longrightarrow> isDigit c \<or> c = CHR ''.''"
  using sanitized_subset [of v] by auto

lemma no_point_count:
  assumes "d \<notin> set k"
  shows "length (filter (\<lambda>c. c = d) k) \<le> 1" "length (dropWhile (\<lambda>c. c \<noteq> d) k) \<le> 3"
  using assms by (induction k) auto

lemma sanitized_points: "length (filter (\<lambda>c. c = CHR ''.'') (sanitized v)) \<le> 1"
proof (cases "filter (\<lambda>c. isDigit c \<or> c = CHR ''.'') v" rule: split_at_point)
  case 1
  show ?thesis
    unfolding restrictedValue_whole(2) [OF refl 1] by (rule no_point_count(1) [OF 1])
next
  case (2 w f)
  have "CHR ''.'' \<notin> set (take 2 f)" using 2(3) by (auto dest: in_set_takeD)
  with 2(2) show ?thesis
    unfolding restrictedValue_one_point(2) [OF 2] by (auto simp add: filter_empty_conv)
next
  case (3 w f q)
  have "CHR ''.'' \<notin> set (take 2 f)" using 3(3) by (auto dest: in_set_takeD)
  with 3(2) show ?thesis
    unfolding restrictedValue_more_points(2) [OF 3] by (auto simp add: filter_empty_conv)
qed

lemma sanitized_fraction: "length (dropWhile (\<lambda>c. c \<noteq> CHR ''.'') (sanitized v)) \<le> 3"
proof (cases "filter (\<lambda>c. isDigit c \<or> c = CHR ''.'') v" rule: split_at_point)
  case 1
  show ?thesis
    unfolding restrictedValue_whole(2) [OF refl 1] by (rule no_point_count(2) [OF 1])
next
  case (2 w f)
  show ?thesis
    unfolding restrictedValue_one_point(2) [OF 2] using 2(2) by (simp add: dropWhile_not_dot)
next
  case (3 w f q)
  show ?thesis
    unfolding restrictedValue_more_points(2) [OF 3] using 3(2) by (simp add: dropWhile_not_dot)
qed

text \<open>
  Claim C6. The string written back by the amount handler depends on the typed string
  only, whatever the component holds: it is the sanitizer of the specification. It
  consists of digits and points, has at most one point, and at most two characters after
  the point. In particular \<^verbatim>\<open>12.3.45\<close> gives \<^verbatim>\<open>12.3\<close>, \<^verbatim>\<open>12.345\<close> gives \<^verbatim>\<open>12.34\<close>
  and \<^verbatim>\<open>abc12.5xyz\<close> gives \<^verbatim>\<open>12.5\<close>.
\<close>

theorem restrictToNumber_sanitizes:
  "fst (restrictToNumber v this) = sanitized v
   \<and> (\<forall>c \<in> set (sanitized v). isDigit c \<or> c = CHR ''.'')
   \<and> length (filter (\<lambda>c. c = CHR ''.'') (sanitized v)) \<le> 1
   \<and> length (dropWhile (\<lambda>c. c \<noteq> CHR ''.'') (sanitized v)) \<le> 3
   \<and> fst (restrictToNumber ''12.3.45'' this) = ''12.3''
   \<and> fst (restrictToNumber ''12.345'' this) = ''12.34''
   \<and> fst (restrictToNumber ''abc12.5xyz'' this) = ''12.5''"
proof -
  have a: "fst (restrictToNumber u this) = sanitized u" for u
    by (simp add: restrictToNumber_def Let_def restrictedValue_sanitized)
  have b: "sanitized ''12.3.45'' = ''12.3''" "sanitized ''12.345'' = ''12.34''"
    "sanitized ''abc12.5xyz'' = ''12.5''"
    by (simp_all add: sanitized_def isDigit_def)
  show ?thesis
    using a b sanitized_chars [of _ v] sanitized_points [of v] sanitized_fraction [of v] by simp
qed

theorem restrictToNumber_sanitizes_witness:
  "fst (restrictToNumber ''1..2'' \<lparr>accountNumber = ''A1'', phoneNumber = [], consumerDetails = None,
      errorMessage = None, isLoading = False\<rparr>) = ''1.''"
  using restrictToNumber_sanitizes [of "''1..2''" "\<lparr>accountNumber = ''A1'', phoneNumber = [], consumerDetails = None,
      errorMessage = None, isLoading = False\<rparr>"]
  by (simp add: sanitized_def isDigit_def)

section \<open>Properties of the phone number check\<close>

lemma digitsThenEnd_iff:
  "digitsThenEnd n s \<longleftrightarrow> length s = n \<and> (\<forall>c \<in> set s. isDigit c)"
  by (induction n s rule: digitsThenEnd.induct) auto

text \<open>
  Claim C8. The phone number is valid exactly when it is empty or consists of exactly ten
  digits: the empty string and \<^verbatim>\<open>5551234567\<close> are valid, \<^verbatim>\<open>555123\<close> and
  \<^verbatim>\<open>55512345678\<close> are not. The payment payload, and the body of the POST that is sent,
  carries \<^verbatim>\<open>number\<close> exactly when the phone number consists of exactly ten digits, and
  then it is the phone number.
\<close>

theorem phone_number_validity:
  "(isPhoneNumberValid this \<longleftrightarrow>
      phoneNumber this = [] \<or> (length (phoneNumber this) = 10 \<and> (\<forall>c \<in> set (phoneNumber this). isDigit c)))
   \<and> (number (paymentPayload this cd) \<noteq> None \<longleftrightarrow>
        length (phoneNumber this) = 10 \<and> (\<forall>c \<in> set (phoneNumber this). isDigit c))
   \<and> (number (paymentPayload this cd) \<noteq> None \<longrightarrow> number (paymentPayload this cd) = Some (phoneNumber this))
   \<and> (\<forall>tempWindow body. snd (onProceedToPay popupAllowed this) = Some (tempWindow, HttpPost body) \<longrightarrow>
        (number body \<noteq> None \<longleftrightarrow>
           length (phoneNumber this) = 10 \<and> (\<forall>c \<in> set (phoneNumber this). isDigit c)))
   \<and> isPhoneNumberValid (this\<lparr>phoneNumber := ''''\<rparr>)
   \<and> isPhoneNumberValid (this\<lparr>phoneNumber := ''5551234567''\<rparr>)
   \<and> \<not> isPhoneNumberValid (this\<lparr>phoneNumber := ''555123''\<rparr>)
   \<and> \<not> isPhoneNumberValid (this\<lparr>phoneNumber := ''55512345678''\<rparr>)"
proof -
  have valid: "isPhoneNumberValid t \<longleftrightarrow>
      phoneNumber t = [] \<or> (length (phoneNumber t) = 10 \<and> (\<forall>c \<in> set (phoneNumber t). isDigit c))" for t
    by (simp add: isPhoneNumberValid_def digitsThenEnd_iff)
  have num: "number (paymentPayload t d) =
      (if length (phoneNumber t) = 10 \<and> (\<forall>c \<in> set (phoneNumber t). isDigit c)
       then Some (phoneNumber t) else None)" for t d
    by (auto simp add: paymentPayload_def valid)
  have sent: "number body = number (paymentPayload this cd')"
    if "snd (onProceedToPay popupAllowed this) = Some (tempWindow, HttpPost body)"
      "consumerDetails this = Some cd'" for tempWindow body cd'
    using that
    by (auto simp add: onProceedToPay_def Let_def paymentPayload_def isPhoneNumberValid_def
        split: if_splits)
  have req: "number body \<noteq> None \<longleftrightarrow>
           length (phoneNumber this) = 10 \<and> (\<forall>c \<in> set (phoneNumber this). isDigit c)"
    if h: "snd (onProceedToPay popupAllowed this) = Some (tempWindow, HttpPost body)" for tempWindow body
  proof (cases "consumerDetails this")
    case None
    with h show ?thesis by (simp add: onProceedToPay_def)
  next
    case (Some cd')
    show ?thesis by (simp add: sent [OF h Some] num)
  qed
  have ex: "isPhoneNumberValid (this\<lparr>phoneNumber := ''''\<rparr>)"
    "isPhoneNumberValid (this\<lparr>phoneNumber := ''5551234567''\<rparr>)"
    "\<not> isPhoneNumberValid (this\<lparr>phoneNumber := ''555123''\<rparr>)"
    "\<not> isPhoneNumberValid (this\<lparr>phoneNumber := ''55512345678''\<rparr>)"
    by (simp_all add: valid isDigit_def)
  show ?thesis
    using valid [of this] num [of this cd] req ex by simp
qed

theorem phone_number_validity_witness:
  "number (paymentPayload \<lparr>accountNumber = ''A1'', phoneNumber = ''5551234567'', consumerDetails = None,
      errorMessage = None, isLoading = False\<rparr> \<lparr>name = ''Jane'', dueDate = ''2025-01-01'', amount = Finite 5\<rparr>)
    = Some ''5551234567''"
  using phone_number_validity [of "\<lparr>accountNumber = ''A1'', phoneNumber = ''5551234567'', consumerDetails = None,
      errorMessage = None, isLoading = False\<rparr>" "\<lparr>name = ''Jane'', dueDate = ''2025-01-01'', amount = Finite 5\<rparr>"]
  by (simp add: isDigit_def)

section \<open>Properties of the guards\<close>

text \<open>
  Claim C1, as the code has it. While \<open>isLoading\<close> holds, neither operation sends a request
  or opens a tab. The lookup leaves the component unchanged when the account number is
  not empty, and the payment leaves it unchanged when consumer details are present. The
  validation that precedes the loading guard still runs: a lookup with an empty account
  number writes its message and clears the consumer details, and a payment without
  consumer details writes its message.
\<close>

theorem busy_operations_send_nothing:
  assumes "isLoading this"
  shows "snd (onGetDetails this) = None
    \<and> snd (onProceedToPay popupAllowed this) = None
    \<and> (accountNumber this \<noteq> [] \<longrightarrow> fst (onGetDetails this) = this)
    \<and> (consumerDetails this \<noteq> None \<longrightarrow> fst (onProceedToPay popupAllowed this) = this)
    \<and> (accountNumber this = [] \<longrightarrow>
           fst (onGetDetails this) =
             this\<lparr>errorMessage := Some (Text ''Please enter an account number''), consumerDetails := None\<rparr>)
    \<and> (consumerDetails this = None \<longrightarrow>
           fst (onProceedToPay popupAllowed this) =
             this\<lparr>errorMessage := Some (Text ''No consumer details available to proceed with payment.'')\<rparr>)"
  using assms by (auto simp add: onGetDetails_def onProceedToPay_def split: option.splits)

theorem busy_operations_send_nothing_witness:
  "onGetDetails \<lparr>accountNumber = ''A1'', phoneNumber = [], consumerDetails = None,
      errorMessage = None, isLoading = True\<rparr>
   = (\<lparr>accountNumber = ''A1'', phoneNumber = [], consumerDetails = None,
      errorMessage = None, isLoading = True\<rparr>, None)"
  using busy_operations_send_nothing [of "\<lparr>accountNumber = ''A1'', phoneNumber = [], consumerDetails = None,
      errorMessage = None, isLoading = True\<rparr>"]
  by (simp add: prod_eq_iff)

text \<open>
  A session that ends in a pending payment with the account field cleared: a lookup of
  account \<^verbatim>\<open>A1\<close> succeeds, the user empties the account field and proceeds to pay.
\<close>

lemma pending_payment_session:
  "foldl (step Map.empty) init
     [AccountNumberInput ''A1'', GetDetailsClick,
      GetDetailsNotification (Next \<lparr>message = Some ''SUCCESS'',
            data = Some \<lparr>payload = Some
              \<lparr>customerDetails = Some \<lparr>customer_name = Some ''Jane'', customer_phoneNumber = Some ''5551234567''\<rparr>,
               payload_dueDate = Some ''2025-01-01'',
               totalAmount = Some (AmountNumber (Finite 5))\<rparr>\<rparr>\<rparr>),
      GetDetailsNotification Complete,
      AccountNumberInput '''', ProceedToPayClick True]
  = \<lparr>accountNumber = '''', phoneNumber = ''5551234567'',
      consumerDetails = Some \<lparr>name = ''Jane'', dueDate = ''2025-01-01'', amount = Finite 5\<rparr>,
      errorMessage = None, isLoading = True\<rparr>"
  by (simp add: init_def onGetDetails_def getDetails_next_def getDetails_complete_def
     onProceedToPay_def Let_def or_string_def or_zero_def parseFloat_totalAmount_def)

text \<open>
  The claim as stated fails in that state: during the pending payment, a lookup with an empty account
  number replaces the consumer details by the validation message.
\<close>

theorem busy_lookup_overwrites_state:
  "fst (onGetDetails
     \<lparr>accountNumber = '''', phoneNumber = ''5551234567'',
      consumerDetails = Some \<lparr>name = ''Jane'', dueDate = ''2025-01-01'', amount = Finite 5\<rparr>,
      errorMessage = None, isLoading = True\<rparr>)
   = \<lparr>accountNumber = '''', phoneNumber = ''5551234567'', consumerDetails = None,
      errorMessage = Some (Text ''Please enter an account number''), isLoading = True\<rparr>"
  by (simp add: onGetDetails_def)

text \<open>
  Claim C2, as the code has it. With the empty account number the lookup writes the
  validation message, clears the consumer details and sends nothing. Any other account
  number, white space included, passes this check: when nothing is loading, the request is
  sent with the account number as typed and no message is set.
\<close>

theorem empty_account_rejected_locally:
  "(accountNumber this = [] \<longrightarrow>
      onGetDetails this =
        (this\<lparr>errorMessage := Some (Text ''Please enter an account number''), consumerDetails := None\<rparr>,
         None))
   \<and> (accountNumber this \<noteq> [] \<and> \<not> isLoading this \<longrightarrow>
        errorMessage (fst (onGetDetails this)) = None
        \<and> snd (onGetDetails this) = Some (HttpGet (accountNumber this)))"
  by (simp add: onGetDetails_def)

theorem empty_account_rejected_locally_witness:
  "onGetDetails \<lparr>accountNumber = '''', phoneNumber = ''5551234567'',
      consumerDetails = Some \<lparr>name = ''Jane'', dueDate = ''2025-01-01'', amount = Finite 5\<rparr>,
      errorMessage = None, isLoading = False\<rparr>
   = (\<lparr>accountNumber = '''', phoneNumber = ''5551234567'', consumerDetails = None,
      errorMessage = Some (Text ''Please enter an account number''), isLoading = False\<rparr>, None)"
  using empty_account_rejected_locally [of "\<lparr>accountNumber = '''', phoneNumber = ''5551234567'',
      consumerDetails = Some \<lparr>name = ''Jane'', dueDate = ''2025-01-01'', amount = Finite 5\<rparr>,
      errorMessage = None, isLoading = False\<rparr>"]
  by simp

text \<open>
  The claim as stated fails for an account number that is a single space: the request is
  sent and no message is shown.
\<close>

theorem blank_account_is_looked_up:
  "onGetDetails \<lparr>accountNumber = '' '', phoneNumber = [], consumerDetails = None,
      errorMessage = None, isLoading = False\<rparr>
   = (\<lparr>accountNumber = '' '', phoneNumber = [], consumerDetails = None,
      errorMessage = None, isLoading = True\<rparr>, Some (HttpGet '' ''))"
  by (simp add: onGetDetails_def)

section \<open>Properties of the lookup\<close>

lemma getDetails_run_started:
  assumes "accountNumber this \<noteq> []" "\<not> isLoading this"
  shows "getDetails_run out this =
     foldl getDetails_observer
       (this\<lparr>isLoading := True, errorMessage := None, consumerDetails := None, phoneNumber := []\<rparr>)
       (notifications out)"
  using assms by (simp add: getDetails_run_def onGetDetails_def)


text \<open>
  Three readings of \<^verbatim>\<open>parseFloat\<close>: the amount of the specification's example, a
  literal beyond the largest binary64 value, and a literal after a no-break space.
\<close>

lemma floorLog2_example: "floorLog2 (85 / 2) = 5"
proof -
  have "\<lfloor>85 / 2 :: rat\<rfloor> = 42" by (rule floor_unique) simp_all
  moreover have "bitlen 42 = 6" using bitlen_twopow_add_eq [of 10 5] by simp
  ultimately show ?thesis by (simp add: floorLog2_def)
qed

lemma roundHalfEven_of_int: "roundHalfEven (of_int n) = n"
  by (simp add: roundHalfEven_def)

lemma binary64_example: "binary64 False (85 / 2) = Finite (85 / 2)"
proof -
  have ulp: "(2::rat) powi (5 - 52) = 1 / 2 ^ 47"
    by (simp add: power_int_def power_one_over)
  have q: "(85 / 2 :: rat) / (1 / 2 ^ 47) = of_int (85 * 2 ^ 46)" by simp
  have r: "of_int (roundHalfEven ((85 / 2 :: rat) / (1 / 2 ^ 47))) * (1 / 2 ^ 47) = (85 / 2 :: rat)"
    unfolding q roundHalfEven_of_int by simp
  have big: "\<not> (2 ^ 1024 \<le> (85 / 2 :: rat))" by simp
  show ?thesis
    unfolding binary64_def Let_def floorLog2_example
    using ulp r big by simp
qed


lemma roundHalfEven_ge_floor: "\<lfloor>q\<rfloor> \<le> roundHalfEven q"
  by (simp add: roundHalfEven_def Let_def)

lemma binary64_overflow:
  assumes "2 ^ 1024 \<le> m"
  shows "binary64 neg m = (if neg then NegInfinity else PosInfinity)"
proof -
  define x where "x = \<lfloor>m\<rfloor>"
  define e where "e = bitlen x - 1"
  have x: "2 ^ 1024 \<le> x"
    using assms unfolding x_def by (simp add: le_floor_iff)
  moreover have "(0::int) < 2 ^ 1024" by simp
  ultimately have xpos: "0 < x" by linarith
  have "(1::rat) \<le> 2 ^ 1024" by simp
  with assms have m1: "1 \<le> m" by linarith
  have e: "floorLog2 m = e" using m1 by (simp add: floorLog2_def e_def x_def)
  have "1025 \<le> bitlen x" using x by (simp add: bitlen_ge_iff_power)
  then have e1024: "1024 \<le> e" by (simp add: e_def)
  have "2 ^ nat e \<le> x" using bitlen_bounds [OF xpos] by (simp add: e_def)
  then have "of_int (2 ^ nat e) \<le> (of_int x :: rat)" by (simp only: of_int_le_iff)
  also have "\<dots> \<le> m" by (simp add: x_def)
  finally have low: "(2::rat) ^ nat e \<le> m" by simp
  define k where "k = nat (e - 52)"
  have ek: "nat e = k + 52" "e - 52 = int k" using e1024 by (simp_all add: k_def)
  have ulp: "(2::rat) powi (e - 52) = 2 ^ k" by (simp add: ek)
  have "(2::rat) ^ 52 * 2 ^ k \<le> m" using low by (simp add: ek power_add mult.commute)
  then have "(2::rat) ^ 52 \<le> m / 2 ^ k" by (simp add: pos_le_divide_eq)
  then have "2 ^ 52 \<le> \<lfloor>m / 2 ^ k\<rfloor>" by (simp add: le_floor_iff)
  then have "2 ^ 52 \<le> roundHalfEven (m / 2 ^ k)"
    using roundHalfEven_ge_floor [of "m / 2 ^ k"] by linarith
  then have "(2::rat) ^ 52 \<le> of_int (roundHalfEven (m / 2 ^ k))"
    by (metis of_int_le_iff of_int_numeral of_int_power)
  then have "(2::rat) ^ 52 * 2 ^ k \<le> of_int (roundHalfEven (m / 2 ^ k)) * 2 ^ k"
    by (simp add: mult_right_mono)
  moreover have "(2::rat) ^ 1024 \<le> 2 ^ 52 * 2 ^ k"
  proof -
    have "1024 \<le> 52 + k" using e1024 ek by linarith
    then have "(2::rat) ^ 1024 \<le> 2 ^ (52 + k)" by (intro power_increasing) simp_all
    then show ?thesis by (simp add: power_add)
  qed
  ultimately have big: "(2::rat) ^ 1024 \<le> of_int (roundHalfEven (m / 2 ^ k)) * 2 ^ k" by linarith
  have m0: "m \<noteq> 0" using m1 by simp
  have mx: "max e (- 1022) = e" using e1024 by simp
  show ?thesis
    using big m0 by (simp add: binary64_def Let_def e mx ulp)
qed

lemma parseFloat_overflow: "parseFloat ''1e309'' = PosInfinity"
proof -
  have "parseFloat ''1e309'' = binary64 False (1 / 10 ^ 0 * (10 powi 309))"
    by (simp add: parseFloat_def decimalLiteral_def isStrWhiteSpaceChar_def isDigit_def
      decimalValue_def exponentPart_def)
  moreover have "(2::rat) ^ 1024 \<le> 1 / 10 ^ 0 * (10 powi 309)" by simp
  ultimately show ?thesis by (simp only: binary64_overflow if_False)
qed

lemma parseFloat_no_break_space: "parseFloat (CHR 0xA0 # ''42.5'') = Finite (85 / 2)"
proof -
  have "parseFloat (CHR 0xA0 # ''42.5'') = binary64 False (425 / 10 ^ 1 * (10 powi 0))"
    by (simp add: parseFloat_def decimalLiteral_def isStrWhiteSpaceChar_def isDigit_def
      decimalValue_def exponentPart_def)
  also have "(425 / 10 ^ 1 * (10 powi 0) :: rat) = 85 / 2" by simp
  finally show ?thesis by (simp add: binary64_example)
qed

lemma getDetails_observer_exclusive:
  "consumerDetails (getDetails_next r this) = None \<or> errorMessage (getDetails_next r this) = None"
  "consumerDetails (getDetails_error e this) = None \<or> errorMessage (getDetails_error e this) = None"
  "consumerDetails (getDetails_complete this) = consumerDetails this"
  "errorMessage (getDetails_complete this) = errorMessage this"
  by (auto simp add: getDetails_next_def getDetails_error_def getDetails_complete_def
      split: option.splits)

lemma getDetails_delivery_exclusive:
  "consumerDetails (foldl getDetails_observer s (notifications out)) = None
   \<or> errorMessage (foldl getDetails_observer s (notifications out)) = None"
proof (cases out)
  case (Responded r)
  show ?thesis
    using getDetails_observer_exclusive(1) [of r s]
    by (simp add: Responded getDetails_observer_exclusive(3,4))
next
  case (Failed e)
  show ?thesis
    using getDetails_observer_exclusive(2) [of e s] by (simp add: Failed)
qed



text \<open>
  Claim C7, as the code has it. For a response whose message is not \<^verbatim>\<open>SUCCESS\<close>, the
  consumer details are cleared; a message that is present and not empty is shown as it
  is, and the generic text is shown when the message is missing or empty.
\<close>

theorem lookup_rejection_message:
  assumes "message response \<noteq> Some ''SUCCESS''"
  shows "consumerDetails (getDetails_next response this) = None
    \<and> (\<forall>m. message response = Some m \<and> m \<noteq> [] \<longrightarrow>
           errorMessage (getDetails_next response this) = Some (Text m))
    \<and> (message response = None \<or> message response = Some [] \<longrightarrow>
           errorMessage (getDetails_next response this)
             = Some (Text ''An error occurred while fetching details.''))"
  using assms by (auto simp add: getDetails_next_def or_string_def)

theorem lookup_rejection_message_witness:
  "getDetails_next \<lparr>message = Some ''not found'', data = None\<rparr>
     \<lparr>accountNumber = ''A1'', phoneNumber = [], consumerDetails = None,
      errorMessage = None, isLoading = True\<rparr>
   = \<lparr>accountNumber = ''A1'', phoneNumber = [], consumerDetails = None,
      errorMessage = Some (Text ''not found''), isLoading = True\<rparr>"
  using lookup_rejection_message [of "\<lparr>message = Some ''not found'', data = None\<rparr>"
      "\<lparr>accountNumber = ''A1'', phoneNumber = [], consumerDetails = None,
      errorMessage = None, isLoading = True\<rparr>"]
  by (simp add: getDetails_next_def or_string_def)

text \<open>
  The claim as stated fails for a response whose message is the empty string: the
  message is present and is not \<^verbatim>\<open>SUCCESS\<close>, and the generic text is shown.
\<close>

theorem empty_server_message_uses_fallback:
  "getDetails_next \<lparr>message = Some '''', data = None\<rparr>
     \<lparr>accountNumber = ''A1'', phoneNumber = [], consumerDetails = None,
      errorMessage = None, isLoading = True\<rparr>
   = \<lparr>accountNumber = ''A1'', phoneNumber = [], consumerDetails = None,
      errorMessage = Some (Text ''An error occurred while fetching details.''), isLoading = True\<rparr>"
  by (simp add: getDetails_next_def or_string_def)

text \<open>
  Claim C9. A lookup with a non-empty account number, started while nothing is loading,
  sends its request with the phone number already reset to the empty string. The phone
  number is still empty after the lookup fails, by an error or by a response without the
  success marker or without a payload.
\<close>

theorem lookup_start_resets_phone:
  assumes "accountNumber this \<noteq> []" "\<not> isLoading this"
  shows "snd (onGetDetails this) = Some (HttpGet (accountNumber this))
    \<and> phoneNumber (fst (onGetDetails this)) = []
    \<and> phoneNumber (getDetails_run (Failed error) this) = []
    \<and> (message response \<noteq> Some ''SUCCESS'' \<or> Option.bind (data response) payload = None \<longrightarrow>
           phoneNumber (getDetails_run (Responded response) this) = [])"
proof -
  have "snd (onGetDetails this) = Some (HttpGet (accountNumber this))"
    "phoneNumber (fst (onGetDetails this)) = []"
    using assms by (simp_all add: onGetDetails_def)
  moreover have "phoneNumber (getDetails_run (Failed error) this) = []"
    by (simp add: getDetails_run_started [OF assms] getDetails_error_def)
  moreover have "message response \<noteq> Some ''SUCCESS'' \<or> Option.bind (data response) payload = None \<longrightarrow>
           phoneNumber (getDetails_run (Responded response) this) = []"
    by (auto simp add: getDetails_run_started [OF assms] getDetails_next_def getDetails_complete_def)
  ultimately show ?thesis by blast
qed

theorem lookup_start_resets_phone_witness:
  "phoneNumber (getDetails_run (Failed \<lparr>error_name = Some ''TimeoutError'', error_status = None,
       error_message = Some ''Timeout has occurred''\<rparr>)
     \<lparr>accountNumber = ''A1'', phoneNumber = ''5551234567'',
      consumerDetails = Some \<lparr>name = ''Jane'', dueDate = ''2025-01-01'', amount = Finite 5\<rparr>,
      errorMessage = None, isLoading = False\<rparr>) = []"
  using lookup_start_resets_phone [of "\<lparr>accountNumber = ''A1'', phoneNumber = ''5551234567'',
      consumerDetails = Some \<lparr>name = ''Jane'', dueDate = ''2025-01-01'', amount = Finite 5\<rparr>,
      errorMessage = None, isLoading = False\<rparr>"]
  by simp

lemma step_loading_exclusive:
  assumes "isLoading this \<longrightarrow> consumerDetails this = None \<or> errorMessage this = None"
  shows "isLoading (step URL this ev) \<longrightarrow>
     consumerDetails (step URL this ev) = None \<or> errorMessage (step URL this ev) = None"
proof (cases ev)
  case (AmountInput v)
  with assms show ?thesis
    by (auto simp add: restrictToNumber_def Let_def split: option.splits)
next
  case GetDetailsClick
  with assms show ?thesis by (auto simp add: onGetDetails_def)
next
  case (ProceedToPayClick popupAllowed)
  with assms show ?thesis
    by (auto simp add: onProceedToPay_def Let_def split: option.splits)
next
  case (GetDetailsNotification n)
  with assms show ?thesis
    using getDetails_observer_exclusive(1,2) [of _ this]
    by (cases n) (auto simp add: getDetails_complete_def)
next
  case (ProceedToPayNotification n w)
  with assms show ?thesis
    by (cases n)
      (auto simp add: proceedToPay_next_def proceedToPay_error_def proceedToPay_complete_def
        Let_def split: option.splits)
qed (use assms in auto)

lemma session_loading_exclusive:
  "isLoading (foldl (step URL) init evs) \<longrightarrow>
     consumerDetails (foldl (step URL) init evs) = None
     \<or> errorMessage (foldl (step URL) init evs) = None"
proof (induction evs rule: rev_induct)
  case Nil
  show ?case by (simp add: init_def)
next
  case (snoc ev evs)
  show ?case using step_loading_exclusive [OF snoc] by simp
qed

text \<open>
  Claim C10. After a lookup that is not the no-op of the loading guard (the account
  number is empty, or nothing is loading), the consumer details or the message is null,
  whatever the state before and whatever the outcome of the request. The response and
  error handlers establish this from any state. The no-op of the loading guard returns
  the state it was given, and in every session of the screen a loading state has the
  consumer details or the message null; so after a lookup invoked at any point of any
  session, at most one of the two is not null.
\<close>

theorem lookup_details_message_exclusive:
  "(accountNumber this = [] \<or> \<not> isLoading this \<longrightarrow>
      consumerDetails (getDetails_run out this) = None \<or> errorMessage (getDetails_run out this) = None)
   \<and> (consumerDetails (getDetails_next r s) = None \<or> errorMessage (getDetails_next r s) = None)
   \<and> (consumerDetails (getDetails_error e s) = None \<or> errorMessage (getDetails_error e s) = None)
   \<and> (accountNumber this \<noteq> [] \<and> isLoading this \<longrightarrow> getDetails_run out this = this)
   \<and> (consumerDetails (getDetails_run out (foldl (step URL) init evs)) = None
        \<or> errorMessage (getDetails_run out (foldl (step URL) init evs)) = None)"
proof -
  have a: "consumerDetails (getDetails_run out t) = None \<or> errorMessage (getDetails_run out t) = None"
    if "accountNumber t = []" for t
    using that by (simp add: getDetails_run_def onGetDetails_def)
  have b: "consumerDetails (getDetails_run out t) = None \<or> errorMessage (getDetails_run out t) = None"
    if "accountNumber t \<noteq> []" "\<not> isLoading t" for t
    using getDetails_delivery_exclusive by (simp add: getDetails_run_started [OF that])
  have c: "getDetails_run out t = t" if "accountNumber t \<noteq> [] \<and> isLoading t" for t
    using that by (simp add: getDetails_run_def onGetDetails_def)
  have ab: "consumerDetails (getDetails_run out t) = None \<or> errorMessage (getDetails_run out t) = None"
    if "accountNumber t = [] \<or> \<not> isLoading t" for t
  proof (cases "accountNumber t = []")
    case True
    then show ?thesis by (rule a)
  next
    case False
    with that show ?thesis by (simp add: b)
  qed
  define u where "u = foldl (step URL) init evs"
  have session: "consumerDetails (getDetails_run out u) = None \<or> errorMessage (getDetails_run out u) = None"
  proof (cases "accountNumber u = [] \<or> \<not> isLoading u")
    case True
    then show ?thesis by (rule ab)
  next
    case False
    then have "getDetails_run out u = u" "isLoading u" by (simp_all add: c)
    then show ?thesis using session_loading_exclusive [of URL evs] by (simp add: u_def)
  qed
  show ?thesis
  proof (intro conjI impI)
    show "consumerDetails (getDetails_next r s) = None \<or> errorMessage (getDetails_next r s) = None"
      by (rule getDetails_observer_exclusive(1))
    show "consumerDetails (getDetails_error e s) = None \<or> errorMessage (getDetails_error e s) = None"
      by (rule getDetails_observer_exclusive(2))
    show "consumerDetails (getDetails_run out (foldl (step URL) init evs)) = None
        \<or> errorMessage (getDetails_run out (foldl (step URL) init evs)) = None"
      using session by (simp add: u_def)
  qed (rule ab, assumption, rule c, assumption)
qed

theorem lookup_details_message_exclusive_witness:
  "consumerDetails (getDetails_run (Responded \<lparr>message = Some ''FAILED'', data = None\<rparr>)
     \<lparr>accountNumber = ''A1'', phoneNumber = ''5551234567'',
      consumerDetails = Some \<lparr>name = ''Jane'', dueDate = ''2025-01-01'', amount = Finite 5\<rparr>,
      errorMessage = Some (Text ''old''), isLoading = False\<rparr>) = None"
  using lookup_details_message_exclusive [of "\<lparr>accountNumber = ''A1'', phoneNumber = ''5551234567'',
      consumerDetails = Some \<lparr>name = ''Jane'', dueDate = ''2025-01-01'', amount = Finite 5\<rparr>,
      errorMessage = Some (Text ''old''), isLoading = False\<rparr>"
      "Responded \<lparr>message = Some ''FAILED'', data = None\<rparr>"]
  by (simp add: getDetails_run_def onGetDetails_def getDetails_next_def getDetails_complete_def
      or_string_def)

section \<open>Properties of the requests and of the payment\<close>

lemma getDetails_terminated_idle:
  assumes "terminated ns"
  shows "\<not> isLoading (foldl getDetails_observer s ns)"
proof -
  from assms obtain ms n where ns: "ns = ms @ [n]" and n: "terminal n"
    unfolding terminated_def by (metis append_butlast_last_id)
  show ?thesis
    using n unfolding ns
    by (cases n) (simp_all add: getDetails_error_def getDetails_complete_def)
qed

lemma proceedToPay_terminated_idle:
  assumes "terminated ns"
  shows "\<not> isLoading (fst (foldl (proceedToPay_observer URL) (s, w) ns))"
proof -
  from assms obtain ms n where ns: "ns = ms @ [n]" and n: "terminal n"
    unfolding terminated_def by (metis append_butlast_last_id)
  show ?thesis
    using n unfolding ns
    by (cases n)
      (simp_all add: proceedToPay_error_def proceedToPay_complete_def split: prod.splits)
qed

lemma notifications_terminated: "terminated (notifications out)"
  by (cases out) (simp_all add: terminated_def)

text \<open>
  Claim C4. When a lookup or a payment initiation sends its request, \<open>isLoading\<close> is true
  as the request leaves. A response runs the success handler and then the completion
  handler on that loading state, and not the error handler; a failure (a timeout is the
  failure named \<^verbatim>\<open>TimeoutError\<close>) runs the error handler alone on it: for every
  outcome exactly one of the two holds. The completion handler and the error handler
  return a state that is not loading whatever state they are given, for every response
  and every error; so \<open>isLoading\<close> is false after the request, and after any sequence of
  notifications that ends in the completion or an error.
\<close>

theorem request_completion_clears_loading:
  "(\<forall>request. snd (onGetDetails this) = Some request \<longrightarrow>
       isLoading (fst (onGetDetails this))
     \<and> getDetails_run (Responded r) this
         = getDetails_complete (getDetails_next r (fst (onGetDetails this)))
     \<and> getDetails_run (Failed e) this = getDetails_error e (fst (onGetDetails this))
     \<and> ((\<exists>r. out = Responded r
              \<and> getDetails_run out this
                  = getDetails_complete (getDetails_next r (fst (onGetDetails this))))
          \<noteq> (\<exists>e. out = Failed e
              \<and> getDetails_run out this = getDetails_error e (fst (onGetDetails this))))
     \<and> \<not> isLoading (getDetails_run out this))
   \<and> (\<forall>tempWindow request. snd (onProceedToPay popupAllowed this) = Some (tempWindow, request) \<longrightarrow>
       isLoading (fst (onProceedToPay popupAllowed this))
     \<and> proceedToPay_run URL popupAllowed (Responded r') this
         = map_prod id Some
             (proceedToPay_complete
               (proceedToPay_next URL r' (fst (onProceedToPay popupAllowed this), tempWindow)))
     \<and> proceedToPay_run URL popupAllowed (Failed e) this
         = map_prod id Some
             (proceedToPay_error e (fst (onProceedToPay popupAllowed this), tempWindow))
     \<and> ((\<exists>r. out' = Responded r
              \<and> proceedToPay_run URL popupAllowed out' this
                  = map_prod id Some
                      (proceedToPay_complete
                        (proceedToPay_next URL r (fst (onProceedToPay popupAllowed this), tempWindow))))
          \<noteq> (\<exists>e. out' = Failed e
              \<and> proceedToPay_run URL popupAllowed out' this
                  = map_prod id Some
                      (proceedToPay_error e (fst (onProceedToPay popupAllowed this), tempWindow))))
     \<and> \<not> isLoading (fst (proceedToPay_run URL popupAllowed out' this)))
   \<and> \<not> isLoading (getDetails_complete s)
   \<and> \<not> isLoading (getDetails_error e s)
   \<and> \<not> isLoading (fst (proceedToPay_complete (s, w)))
   \<and> \<not> isLoading (fst (proceedToPay_error e (s, w)))
   \<and> (terminated ns \<longrightarrow> \<not> isLoading (foldl getDetails_observer s ns))
   \<and> (terminated ns' \<longrightarrow> \<not> isLoading (fst (foldl (proceedToPay_observer URL) (s, w) ns')))"
  (is "?lookup \<and> ?payment \<and> ?c1 \<and> ?c2 \<and> ?c3 \<and> ?c4 \<and> ?t1 \<and> ?t2")
proof -
  have ?lookup
  proof (intro allI impI)
    fix request
    assume sent: "snd (onGetDetails this) = Some request"
    then have guards: "accountNumber this \<noteq> []" "\<not> isLoading this"
      by (auto simp add: onGetDetails_def split: if_splits)
    have run: "getDetails_run o' this = foldl getDetails_observer (fst (onGetDetails this)) (notifications o')"
      for o'
      using guards by (simp add: getDetails_run_def onGetDetails_def)
    have loading: "isLoading (fst (onGetDetails this))"
      using guards by (simp add: onGetDetails_def)
    have resp: "getDetails_run (Responded r) this
         = getDetails_complete (getDetails_next r (fst (onGetDetails this)))" for r
      by (simp add: run)
    have fail: "getDetails_run (Failed e) this = getDetails_error e (fst (onGetDetails this))" for e
      by (simp add: run)
    have one: "(\<exists>r. out = Responded r
              \<and> getDetails_run out this
                  = getDetails_complete (getDetails_next r (fst (onGetDetails this))))
          \<noteq> (\<exists>e. out = Failed e
              \<and> getDetails_run out this = getDetails_error e (fst (onGetDetails this)))"
      by (cases out) (simp_all add: resp fail)
    have idle: "\<not> isLoading (getDetails_run out this)"
      unfolding run by (rule getDetails_terminated_idle [OF notifications_terminated])
    from loading resp fail one idle
    show "isLoading (fst (onGetDetails this))
     \<and> getDetails_run (Responded r) this
         = getDetails_complete (getDetails_next r (fst (onGetDetails this)))
     \<and> getDetails_run (Failed e) this = getDetails_error e (fst (onGetDetails this))
     \<and> ((\<exists>r. out = Responded r
              \<and> getDetails_run out this
                  = getDetails_complete (getDetails_next r (fst (onGetDetails this))))
          \<noteq> (\<exists>e. out = Failed e
              \<and> getDetails_run out this = getDetails_error e (fst (onGetDetails this))))
     \<and> \<not> isLoading (getDetails_run out this)"
      by (intro conjI)
  qed
  moreover have ?payment
  proof (intro allI impI)
    fix tempWindow request
    assume sent: "snd (onProceedToPay popupAllowed this) = Some (tempWindow, request)"
    define t where "t = fst (onProceedToPay popupAllowed this)"
    have whole: "onProceedToPay popupAllowed this = (t, Some (tempWindow, request))"
      using sent by (simp add: t_def prod_eq_iff)
    have loading: "isLoading t"
      using whole by (auto simp add: onProceedToPay_def Let_def split: option.splits if_splits)
    have run: "proceedToPay_run URL popupAllowed o' this
        = map_prod id Some (foldl (proceedToPay_observer URL) (t, tempWindow) (notifications o'))" for o'
      by (simp add: proceedToPay_run_def whole split: prod.splits)
    have resp: "proceedToPay_run URL popupAllowed (Responded r) this
         = map_prod id Some (proceedToPay_complete (proceedToPay_next URL r (t, tempWindow)))" for r
      by (simp add: run)
    have fail: "proceedToPay_run URL popupAllowed (Failed e) this
         = map_prod id Some (proceedToPay_error e (t, tempWindow))" for e
      by (simp add: run)
    have one: "(\<exists>r. out' = Responded r
              \<and> proceedToPay_run URL popupAllowed out' this
                  = map_prod id Some (proceedToPay_complete (proceedToPay_next URL r (t, tempWindow))))
          \<noteq> (\<exists>e. out' = Failed e
              \<and> proceedToPay_run URL popupAllowed out' this
                  = map_prod id Some (proceedToPay_error e (t, tempWindow)))"
      by (cases out') (simp_all add: resp fail)
    have idle: "\<not> isLoading (fst (proceedToPay_run URL popupAllowed out' this))"
      using proceedToPay_terminated_idle [OF notifications_terminated, of URL t tempWindow out']
      by (simp add: run)
    from loading resp fail one idle
    show "isLoading (fst (onProceedToPay popupAllowed this))
     \<and> proceedToPay_run URL popupAllowed (Responded r') this
         = map_prod id Some
             (proceedToPay_complete
               (proceedToPay_next URL r' (fst (onProceedToPay popupAllowed this), tempWindow)))
     \<and> proceedToPay_run URL popupAllowed (Failed e) this
         = map_prod id Some
             (proceedToPay_error e (fst (onProceedToPay popupAllowed this), tempWindow))
     \<and> ((\<exists>r. out' = Responded r
              \<and> proceedToPay_run URL popupAllowed out' this
                  = map_prod id Some
                      (proceedToPay_complete
                        (proceedToPay_next URL r (fst (onProceedToPay popupAllowed this), tempWindow))))
          \<noteq> (\<exists>e. out' = Failed e
              \<and> proceedToPay_run URL popupAllowed out' this
                  = map_prod id Some
                      (proceedToPay_error e (fst (onProceedToPay popupAllowed this), tempWindow))))
     \<and> \<not> isLoading (fst (proceedToPay_run URL popupAllowed out' this))"
      unfolding t_def [symmetric] by (intro conjI)
  qed
  moreover have ?c1 by (simp add: getDetails_complete_def)
  moreover have ?c2 by (simp add: getDetails_error_def)
  moreover have ?c3 by (simp add: proceedToPay_complete_def)
  moreover have ?c4 by (simp add: proceedToPay_error_def)
  moreover have ?t1 using getDetails_terminated_idle by blast
  moreover have ?t2 using proceedToPay_terminated_idle by blast
  ultimately show ?thesis by (intro conjI)
qed

theorem request_completion_clears_loading_witness:
  "snd (onGetDetails
      \<lparr>accountNumber = ''A1'', phoneNumber = [],
       consumerDetails = Some \<lparr>name = ''Jane'', dueDate = ''2025-01-01'', amount = Finite 5\<rparr>,
       errorMessage = None, isLoading = False\<rparr>) = Some (HttpGet ''A1'')
   \<and> snd (onProceedToPay True
      \<lparr>accountNumber = ''A1'', phoneNumber = [],
       consumerDetails = Some \<lparr>name = ''Jane'', dueDate = ''2025-01-01'', amount = Finite 5\<rparr>,
       errorMessage = None, isLoading = False\<rparr>)
       = Some (\<lparr>location_href = ''about:blank'', closed = False\<rparr>,
               HttpPost \<lparr>pay_name = ''Jane'', fileNumber = ''A1'', pay_amount = Finite 5, number = None\<rparr>)
   \<and> terminated [Next \<lparr>message = Some ''FAILED'', data = None\<rparr>,
                   Error \<lparr>error_name = Some ''TimeoutError'', error_status = None, error_message = None\<rparr>]
   \<and> \<not> isLoading (getDetails_run
        (Failed \<lparr>error_name = None, error_status = Some 0, error_message = None\<rparr>)
      \<lparr>accountNumber = ''A1'', phoneNumber = [],
       consumerDetails = Some \<lparr>name = ''Jane'', dueDate = ''2025-01-01'', amount = Finite 5\<rparr>,
       errorMessage = None, isLoading = False\<rparr>)
   \<and> \<not> isLoading (fst (proceedToPay_run Map.empty True
        (Responded \<lparr>message = Some ''Success'', data = Some \<lparr>link = Some ''not a url''\<rparr>\<rparr>)
      \<lparr>accountNumber = ''A1'', phoneNumber = [],
       consumerDetails = Some \<lparr>name = ''Jane'', dueDate = ''2025-01-01'', amount = Finite 5\<rparr>,
       errorMessage = None, isLoading = False\<rparr>))
   \<and> \<not> isLoading (foldl getDetails_observer
      \<lparr>accountNumber = ''A1'', phoneNumber = [], consumerDetails = None,
       errorMessage = None, isLoading = True\<rparr>
      [Next \<lparr>message = Some ''FAILED'', data = None\<rparr>,
       Error \<lparr>error_name = Some ''TimeoutError'', error_status = None, error_message = None\<rparr>])"
proof -
  have sent: "snd (onGetDetails
      \<lparr>accountNumber = ''A1'', phoneNumber = [],
       consumerDetails = Some \<lparr>name = ''Jane'', dueDate = ''2025-01-01'', amount = Finite 5\<rparr>,
       errorMessage = None, isLoading = False\<rparr>) = Some (HttpGet ''A1'')"
    by (simp add: onGetDetails_def)
  have posted: "snd (onProceedToPay True
      \<lparr>accountNumber = ''A1'', phoneNumber = [],
       consumerDetails = Some \<lparr>name = ''Jane'', dueDate = ''2025-01-01'', amount = Finite 5\<rparr>,
       errorMessage = None, isLoading = False\<rparr>)
       = Some (\<lparr>location_href = ''about:blank'', closed = False\<rparr>,
               HttpPost \<lparr>pay_name = ''Jane'', fileNumber = ''A1'', pay_amount = Finite 5, number = None\<rparr>)"
    by (simp add: onProceedToPay_def paymentPayload_def)
  have ended: "terminated [Next \<lparr>message = Some ''FAILED'', data = None\<rparr>,
                   Error \<lparr>error_name = Some ''TimeoutError'', error_status = None, error_message = None\<rparr>]"
    by (simp add: terminated_def)
  note inst = request_completion_clears_loading
        [where this = "\<lparr>accountNumber = ''A1'', phoneNumber = [],
           consumerDetails = Some \<lparr>name = ''Jane'', dueDate = ''2025-01-01'', amount = Finite 5\<rparr>,
           errorMessage = None, isLoading = False\<rparr>"
         and out = "Failed \<lparr>error_name = None, error_status = Some 0, error_message = None\<rparr>"
         and popupAllowed = True and URL = Map.empty
         and out' = "Responded \<lparr>message = Some ''Success'', data = Some \<lparr>link = Some ''not a url''\<rparr>\<rparr>"
         and s = "\<lparr>accountNumber = ''A1'', phoneNumber = [], consumerDetails = None,
           errorMessage = None, isLoading = True\<rparr>"
         and ns = "[Next \<lparr>message = Some ''FAILED'', data = None\<rparr>,
           Error \<lparr>error_name = Some ''TimeoutError'', error_status = None, error_message = None\<rparr>]"]
  note lookup = inst [THEN conjunct1, rule_format, OF sent]
  note payment = inst [THEN conjunct2, THEN conjunct1, rule_format, OF posted]
  note sequence = inst [THEN conjunct2, THEN conjunct2, THEN conjunct2, THEN conjunct2,
      THEN conjunct2, THEN conjunct2, THEN conjunct1, rule_format, OF ended]
  note lookup_idle = lookup [THEN conjunct2, THEN conjunct2, THEN conjunct2, THEN conjunct2]
  note payment_idle = payment [THEN conjunct2, THEN conjunct2, THEN conjunct2, THEN conjunct2]
  from sent posted ended lookup_idle payment_idle sequence show ?thesis
    by (intro conjI)
qed

text \<open>
  Claim C5, as the code has it. For a payment response with message \<^verbatim>\<open>Success\<close> whose
  link is not empty and is rejected by the URL parser, the tab is closed, \<open>isLoading\<close>
  becomes false, and the message is trusted markup whose anchor has the link, as
  received, for its \<^verbatim>\<open>href\<close>; the same holds for the whole payment initiation. An empty
  link counts as a missing one: the tab is closed, \<open>isLoading\<close> becomes false, and the
  message is the plain text of a failed link generation.
\<close>

theorem unparsable_link_closes_tab:
  assumes "message response = Some ''Success''" "data response = Some d" "link d = Some l"
    and "URL l = None"
  shows "(l \<noteq> [] \<longrightarrow>
        proceedToPay_next URL response (this, tempWindow) =
          (this\<lparr>errorMessage := Some (SafeHtml
               (''Invalid payment URL. Please try again or <a href=\"'' @ l
                @ ''\" class=\"fallback-link\">click here</a> to proceed with payment.'')),
             isLoading := False\<rparr>,
           tempWindow\<lparr>closed := True\<rparr>))
     \<and> (l = [] \<longrightarrow>
        proceedToPay_next URL response (this, tempWindow) =
          (this\<lparr>errorMessage := Some (Text ''Failed to generate payment link. Please try again.''),
             isLoading := False\<rparr>,
           tempWindow\<lparr>closed := True\<rparr>))
     \<and> (l \<noteq> [] \<and> consumerDetails this \<noteq> None \<and> \<not> isLoading this \<longrightarrow>
        proceedToPay_run URL True (Responded response) this =
          (this\<lparr>errorMessage := Some (SafeHtml
               (''Invalid payment URL. Please try again or <a href=\"'' @ l
                @ ''\" class=\"fallback-link\">click here</a> to proceed with payment.'')),
             isLoading := False\<rparr>,
           Some \<lparr>location_href = ''about:blank'', closed = True\<rparr>))"
  using assms
  by (auto simp add: proceedToPay_next_def proceedToPay_run_def onProceedToPay_def Let_def
      proceedToPay_complete_def)

theorem unparsable_link_closes_tab_witness:
  "proceedToPay_next Map.empty \<lparr>message = Some ''Success'', data = Some \<lparr>link = Some ''not a url''\<rparr>\<rparr>
     (\<lparr>accountNumber = ''A1'', phoneNumber = [],
       consumerDetails = Some \<lparr>name = ''Jane'', dueDate = ''2025-01-01'', amount = Finite 5\<rparr>,
       errorMessage = None, isLoading = True\<rparr>,
      \<lparr>location_href = ''about:blank'', closed = False\<rparr>)
   = (\<lparr>accountNumber = ''A1'', phoneNumber = [],
       consumerDetails = Some \<lparr>name = ''Jane'', dueDate = ''2025-01-01'', amount = Finite 5\<rparr>,
       errorMessage = Some (SafeHtml
         ''Invalid payment URL. Please try again or <a href=\"not a url\" class=\"fallback-link\">click here</a> to proceed with payment.''),
       isLoading = False\<rparr>,
      \<lparr>location_href = ''about:blank'', closed = True\<rparr>)"
  using unparsable_link_closes_tab [of "\<lparr>message = Some ''Success'', data = Some \<lparr>link = Some ''not a url''\<rparr>\<rparr>"
      "\<lparr>link = Some ''not a url''\<rparr>" "''not a url''" Map.empty
      "\<lparr>accountNumber = ''A1'', phoneNumber = [],
       consumerDetails = Some \<lparr>name = ''Jane'', dueDate = ''2025-01-01'', amount = Finite 5\<rparr>,
       errorMessage = None, isLoading = True\<rparr>"
      "\<lparr>location_href = ''about:blank'', closed = False\<rparr>"]
  by simp

text \<open>
  The claim as stated fails for the empty link, which the URL parser rejects: the message
  is plain text and contains no anchor.
\<close>

theorem empty_link_is_generic_failure:
  "proceedToPay_next Map.empty \<lparr>message = Some ''Success'', data = Some \<lparr>link = Some ''''\<rparr>\<rparr>
     (\<lparr>accountNumber = ''A1'', phoneNumber = [],
       consumerDetails = Some \<lparr>name = ''Jane'', dueDate = ''2025-01-01'', amount = Finite 5\<rparr>,
       errorMessage = None, isLoading = True\<rparr>,
      \<lparr>location_href = ''about:blank'', closed = False\<rparr>)
   = (\<lparr>accountNumber = ''A1'', phoneNumber = [],
       consumerDetails = Some \<lparr>name = ''Jane'', dueDate = ''2025-01-01'', amount = Finite 5\<rparr>,
       errorMessage = Some (Text ''Failed to generate payment link. Please try again.''),
       isLoading = False\<rparr>,
      \<lparr>location_href = ''about:blank'', closed = True\<rparr>)"
  by (simp add: proceedToPay_next_def)

end
